theory Spec2Isabelle
  imports Main
begin

section \<open>Style definitions (src/styles.py)\<close>

text \<open>
  \<^verbatim>\<open>class StyleType(str, Enum)\<close>: a closed enumeration whose members are strings.
  A member hashes and compares as its string value, so a dictionary keyed by members is
  read with the member or with the plain string alike; \<open>style_value\<close> gives that string.
\<close>

datatype StyleType =
    DEFAULT
  | TAIPEI_METRO
  | MODERN_CAFE
  | MINIMAL_CONCRETE
  | WARM_WOOD
  | TECH_GRADIENT
  | FLAT_INFOGRAPHIC

fun style_value :: "StyleType \<Rightarrow> string" where
  "style_value DEFAULT = ''default''"
| "style_value TAIPEI_METRO = ''taipei_metro''"
| "style_value MODERN_CAFE = ''modern_cafe''"
| "style_value MINIMAL_CONCRETE = ''minimal_concrete''"
| "style_value WARM_WOOD = ''warm_wood''"
| "style_value TECH_GRADIENT = ''tech_gradient''"
| "style_value FLAT_INFOGRAPHIC = ''flat_infographic''"

definition all_style_types :: "StyleType list" where
  "all_style_types =
     [DEFAULT, TAIPEI_METRO, MODERN_CAFE, MINIMAL_CONCRETE, WARM_WOOD, TECH_GRADIENT,
      FLAT_INFOGRAPHIC]"

text \<open>
  \<^verbatim>\<open>class StyleProfile(BaseModel)\<close>. The two dictionaries are association lists in
  the order of the source's literals (their keys are distinct); \<open>dict_get\<close> is
  \<^verbatim>\<open>d.get(key, default)\<close>.
\<close>

record StyleProfile =
  name :: string
  layout_template_name :: string
  base_prompt_modifier :: string
  logic_color_map :: "(string \<times> string) list"
  mascot_actions :: "(string \<times> string) list"

definition dict_get :: "('k \<times> 'v) list \<Rightarrow> 'k \<Rightarrow> 'v \<Rightarrow> 'v" where
  "dict_get d key dflt = (case map_of d key of None \<Rightarrow> dflt | Some v \<Rightarrow> v)"

definition METRO_STYLE :: StyleProfile where
  "METRO_STYLE = \<lparr>
     name = ''Taipei Metro'',
     layout_template_name = ''metro'',
     base_prompt_modifier =
       ''Style: Clean, bright, professional public transport signage aesthetic. '' @
       ''Background: Minimalist white subway station environment, glossy textures, wide '' @
       ''angle, abstract geometric patterns inspired by metro maps. Composition: Leave '' @
       ''ample white space in the center for text overlay. Constraint: NO TEXT, NO '' @
       ''WATERMARKS, NO CHARACTERS, professional corporate style only.'',
     logic_color_map =
       [(''point_opening'', ''#E3002C''),
        (''reasons'', ''#C48C31''),
        (''examples'', ''#0070BD''),
        (''point_closing'', ''#008659''),
        (''default'', ''#333333'')],
     mascot_actions = [] \<rparr>"

definition MODERN_CAFE_STYLE :: StyleProfile where
  "MODERN_CAFE_STYLE = \<lparr>
     name = ''Modern Cafe'',
     layout_template_name = ''metro'',
     base_prompt_modifier =
       ''Style: Cozy modern cafe interior, natural lighting from large windows, '' @
       ''professional atmosphere. Background: Wooden furniture, hanging plants, soft '' @
       ''beige walls, warm atmosphere. Lighting: Soft morning sunlight, warm tones. '' @
       ''Composition: Minimalist with central space for content. Constraint: NO TEXT, NO '' @
       ''WATERMARKS, NO CHARACTERS in the image.'',
     logic_color_map =
       [(''point_opening'', ''#8B4513''),
        (''reasons'', ''#D2691E''),
        (''examples'', ''#6B8E23''),
        (''point_closing'', ''#CD853F''),
        (''default'', ''#5D4E37'')],
     mascot_actions = [] \<rparr>"

definition MINIMAL_CONCRETE_STYLE :: StyleProfile where
  "MINIMAL_CONCRETE_STYLE = \<lparr>
     name = ''Minimal Concrete'',
     layout_template_name = ''metro'',
     base_prompt_modifier =
       ''Style: Minimalist concrete architecture, industrial aesthetic, professional '' @
       ''corporate feel. Background: Smooth concrete walls, subtle shadows, geometric '' @
       ''shapes. Lighting: Soft diffused natural light, monochromatic tones. Composition: '' @
       ''Architectural minimalism with central focus area. Constraint: NO TEXT, NO '' @
       ''WATERMARKS, NO CHARACTERS in the image.'',
     logic_color_map =
       [(''point_opening'', ''#708090''),
        (''reasons'', ''#2F4F4F''),
        (''examples'', ''#696969''),
        (''point_closing'', ''#778899''),
        (''default'', ''#808080'')],
     mascot_actions = [] \<rparr>"

definition WARM_WOOD_STYLE :: StyleProfile where
  "WARM_WOOD_STYLE = \<lparr>
     name = ''Warm Wood'',
     layout_template_name = ''metro'',
     base_prompt_modifier =
       ''Style: Warm wooden interior, Scandinavian design aesthetic, professional '' @
       ''setting. Background: Natural wood panels, soft fabric textures, indoor plants. '' @
       ''Lighting: Warm ambient light, cozy yet professional atmosphere. Composition: '' @
       ''Clean layout with central content area. Constraint: NO TEXT, NO WATERMARKS, NO '' @
       ''CHARACTERS in the image.'',
     logic_color_map =
       [(''point_opening'', ''#DEB887''),
        (''reasons'', ''#CD853F''),
        (''examples'', ''#8FBC8F''),
        (''point_closing'', ''#F4A460''),
        (''default'', ''#D2B48C'')],
     mascot_actions = [] \<rparr>"

definition TECH_GRADIENT_STYLE :: StyleProfile where
  "TECH_GRADIENT_STYLE = \<lparr>
     name = ''Tech Gradient'',
     layout_template_name = ''metro'',
     base_prompt_modifier =
       ''Style: Modern tech aesthetic with smooth gradients, futuristic professional '' @
       ''feel. Background: Flowing gradient colors (blue to purple to pink), subtle '' @
       ''geometric patterns. Lighting: Soft neon glow, digital atmosphere. Composition: '' @
       ''Tech-inspired layout with focus on data visualization aesthetic. Constraint: NO '' @
       ''TEXT, NO WATERMARKS, NO CHARACTERS in the image.'',
     logic_color_map =
       [(''point_opening'', ''#667EEA''),
        (''reasons'', ''#764BA2''),
        (''examples'', ''#F093FB''),
        (''point_closing'', ''#4FACFE''),
        (''default'', ''#7F7FD5'')],
     mascot_actions = [] \<rparr>"

definition FLAT_INFOGRAPHIC_STYLE :: StyleProfile where
  "FLAT_INFOGRAPHIC_STYLE = \<lparr>
     name = ''Flat Infographic'',
     layout_template_name = ''metro'',
     base_prompt_modifier =
       ''Style: Modern flat design with vector graphics and bold outlines. Background: '' @
       ''Clean infographic layout with geometric shapes, icons, and subtle patterns. '' @
       ''Visual elements: Simple line art, bold strokes (3-4px), professional business '' @
       ''icons. Composition: Minimalist composition with clear visual hierarchy. Color '' @
       ''palette: Professional corporate colors with high contrast. Aesthetic: Corporate '' @
       ''presentation style, isometric elements optional. Constraint: NO TEXT, NO '' @
       ''WATERMARKS, pure vector-style visual background only.'',
     logic_color_map =
       [(''point_opening'', ''#2563EB''),
        (''reasons'', ''#DC2626''),
        (''examples'', ''#059669''),
        (''point_closing'', ''#7C3AED''),
        (''default'', ''#1E293B'')],
     mascot_actions = [] \<rparr>"
text \<open>
  \<^verbatim>\<open>StyleRegistry._styles\<close>: six entries, keyed by the members' string values; there is
  no entry for \<open>DEFAULT\<close>. \<^verbatim>\<open>StyleRegistry.get\<close> is
  \<^verbatim>\<open>cls._styles.get(style_type, METRO_STYLE)\<close>.
\<close>

definition styles_registry :: "(string \<times> StyleProfile) list" where
  "styles_registry =
     [(style_value TAIPEI_METRO, METRO_STYLE),
      (style_value MODERN_CAFE, MODERN_CAFE_STYLE),
      (style_value MINIMAL_CONCRETE, MINIMAL_CONCRETE_STYLE),
      (style_value WARM_WOOD, WARM_WOOD_STYLE),
      (style_value TECH_GRADIENT, TECH_GRADIENT_STYLE),
      (style_value FLAT_INFOGRAPHIC, FLAT_INFOGRAPHIC_STYLE)]"

definition registry_get :: "string \<Rightarrow> StyleProfile" where
  "registry_get style_type = dict_get styles_registry style_type METRO_STYLE"

text \<open>
  The legacy keys live in the editor (nano\_banana\_app.py, lines 572--580), not in the
  registry:
  \<^verbatim>\<open>
  if isinstance(slide["style"], str) and slide["style"] not in [s.value for s in StyleType]:
      old_style_map = {...}
      slide["style"] = old_style_map.get(slide["style"], StyleType.TAIPEI_METRO)
  \<close>
\<close>

definition old_style_map :: "(string \<times> StyleType) list" where
  "old_style_map =
     [(''professional'', TAIPEI_METRO),
      (''creative'', MODERN_CAFE),
      (''minimal'', MINIMAL_CONCRETE),
      (''tech'', TECH_GRADIENT),
      (''warm'', WARM_WOOD)]"

definition remap_legacy_style :: "string \<Rightarrow> string" where
  "remap_legacy_style s =
     (if s \<notin> set (map style_value all_style_types)
      then style_value (dict_get old_style_map s TAIPEI_METRO)
      else s)"

section \<open>Slide records (src/models.py)\<close>

text \<open>
  Modelled from the spec: \<^verbatim>\<open>SlideContent\<close> is declared in src/models.py, which is not
  among the sources. Its fields are the ones the callers pass
  (\<^verbatim>\<open>create_pptx_from_slides\<close>, \<^verbatim>\<open>create_html_preview\<close>) and the two renderers read;
  the optional fields are \<open>None\<close> or a string.
\<close>

record SlideContent =
  slide_id :: string
  framework_section :: string
  title :: string
  body_text :: string
  background_image_base64 :: "string option"
  rationale :: "string option"

section \<open>Python built-ins the exporter calls\<close>

datatype error = ValueError

text \<open>
  \<^verbatim>\<open>int(s, 16)\<close> on an ASCII string, as CPython parses it: white space is stripped at
  both ends, then an optional sign, an optional \<^verbatim>\<open>0x\<close> prefix (one underscore may
  follow it), then hexadecimal digits with single underscores between them; anything
  else raises \<^verbatim>\<open>ValueError\<close>.
\<close>

definition hex_digit_value :: "char \<Rightarrow> nat option" where
  "hex_digit_value c =
     (let n = (of_char c :: nat) in
      if 48 \<le> n \<and> n \<le> 57 then Some (n - 48)
      else if 97 \<le> n \<and> n \<le> 102 then Some (n - 87)
      else if 65 \<le> n \<and> n \<le> 70 then Some (n - 55)
      else None)"

definition py_isspace :: "char \<Rightarrow> bool" where
  "py_isspace c = ((of_char c :: nat) \<in> {9, 10, 11, 12, 13, 32})"

definition py_strip :: "string \<Rightarrow> string" where
  "py_strip s = rev (dropWhile py_isspace (rev (dropWhile py_isspace s)))"

fun scan_digits :: "bool \<Rightarrow> nat \<Rightarrow> string \<Rightarrow> nat option" where
  "scan_digits prev_underscore acc [] = (if prev_underscore then None else Some acc)"
| "scan_digits prev_underscore acc (c # cs) =
     (if c = CHR ''_'' then (if prev_underscore then None else scan_digits True acc cs)
      else (case hex_digit_value c of
              None \<Rightarrow> None
            | Some d \<Rightarrow> scan_digits False (16 * acc + d) cs))"

definition py_int16 :: "string \<Rightarrow> error + int" where
  "py_int16 s =
     (let t = py_strip s;
          negative = (take 1 t = ''-'');
          u = (if take 1 t = ''+'' \<or> take 1 t = ''-'' then drop 1 t else t);
          v = (if take 2 u = ''0x'' \<or> take 2 u = ''0X''
               then (if take 1 (drop 2 u) = ''_'' then drop 3 u else drop 2 u)
               else u)
      in if v = [] \<or> take 1 v = ''_'' then Inl ValueError
         else (case scan_digits False 0 v of
                 None \<Rightarrow> Inl ValueError
               | Some n \<Rightarrow> Inr (if negative then - int n else int n)))"

text \<open>\<^verbatim>\<open>str(n)\<close> for a non-negative integer, and \<^verbatim>\<open>s.zfill(width)\<close>.\<close>

definition digit_char :: "nat \<Rightarrow> char" where
  "digit_char d = char_of (48 + d)"

fun str_nat :: "nat \<Rightarrow> string" where
  "str_nat n = (if n < 10 then [digit_char n] else str_nat (n div 10) @ [digit_char (n mod 10)])"

declare str_nat.simps [simp del]

definition zfill :: "nat \<Rightarrow> string \<Rightarrow> string" where
  "zfill width s =
     (if width \<le> length s then s
      else (case s of
              [] \<Rightarrow> replicate width (CHR ''0'')
            | c # r \<Rightarrow>
                if c = CHR ''+'' \<or> c = CHR ''-''
                then c # replicate (width - length s) (CHR ''0'') @ r
                else replicate (width - length s) (CHR ''0'') @ s))"

text \<open>\<^verbatim>\<open>s.split(sep)\<close> with a one-character separator.\<close>

fun py_split :: "char \<Rightarrow> string \<Rightarrow> string list" where
  "py_split sep [] = [[]]"
| "py_split sep (c # cs) =
     (if c = sep then [] # py_split sep cs
      else (case py_split sep cs of
              [] \<Rightarrow> [[c]]
            | w # ws \<Rightarrow> (c # w) # ws))"

section \<open>The PowerPoint exporter (src/exporter.py)\<close>

text \<open>
  \<^verbatim>\<open>RGBColor(r, g, b)\<close> of python-pptx takes three integers in 0..255 and raises
  \<^verbatim>\<open>ValueError\<close> otherwise.
\<close>

type_synonym rgb = "int \<times> int \<times> int"

definition RGBColor :: "int \<Rightarrow> int \<Rightarrow> int \<Rightarrow> error + rgb" where
  "RGBColor r g b =
     (if 0 \<le> r \<and> r \<le> 255 \<and> 0 \<le> g \<and> g \<le> 255 \<and> 0 \<le> b \<and> b \<le> 255
      then Inr (r, g, b) else Inl ValueError)"

text \<open>
  \<^verbatim>\<open>_hex_to_rgb\<close>: \<^verbatim>\<open>h = hex_color.lstrip('#')\<close>, then
  \<^verbatim>\<open>RGBColor(*tuple(int(h[i:i+2], 16) for i in (0, 2, 4)))\<close>.
\<close>

definition hex_to_rgb :: "string \<Rightarrow> error + rgb" where
  "hex_to_rgb hex_color =
     (let h = dropWhile (\<lambda>c. c = CHR ''#'') hex_color in
      case py_int16 (take 2 h) of
        Inl e \<Rightarrow> Inl e
      | Inr r \<Rightarrow>
          (case py_int16 (take 2 (drop 2 h)) of
             Inl e \<Rightarrow> Inl e
           | Inr g \<Rightarrow>
               (case py_int16 (take 2 (drop 4 h)) of
                  Inl e \<Rightarrow> Inl e
                | Inr b \<Rightarrow> RGBColor r g b)))"

text \<open>
  A page is the list of its shapes in the order they are added (the first is the bottom
  layer). Each constructor is one \<^verbatim>\<open>add_picture\<close>, \<^verbatim>\<open>add_shape\<close> or
  \<^verbatim>\<open>add_textbox\<close> call of the source with the attributes that depend on the input:
  \<open>Line c\<close> is the horizontal band filled with \<open>c\<close>; \<open>Circle c t\<close> the white badge with
  border and font colour \<open>c\<close> and text \<open>t\<close>; \<open>Dot fill transparency outline\<close> a progress
  dot (transparency in percent, \<open>None\<close> when not set; outline \<open>None\<close> when the line is
  removed); \<open>AccentBar c\<close> the bar left of the title. Positions and sizes are constants
  of the source and are left out.
\<close>

datatype 'img shape =
    Picture 'img
  | Line rgb
  | Circle rgb string
  | Dot rgb "nat option" "rgb option"
  | TitleBg
  | BodyBg
  | TitleBox string
  | AccentBar rgb
  | BodyBox string

text \<open>
  \<^verbatim>\<open>_set_background\<close>. The parameter \<open>add_picture\<close> stands for
  \<^verbatim>\<open>base64.b64decode\<close> followed by \<^verbatim>\<open>slide.shapes.add_picture\<close>: it gives the
  picture, or \<open>None\<close> when either raises. The \<^verbatim>\<open>except Exception: pass\<close> clause
  leaves the slide as it was.
\<close>

definition strip_data_uri :: "string \<Rightarrow> string" where
  "strip_data_uri b64_str =
     (if CHR '','' \<in> set b64_str then py_split (CHR '','') b64_str ! 1 else b64_str)"

definition set_background ::
    "(string \<Rightarrow> 'img option) \<Rightarrow> 'img shape list \<Rightarrow> string \<Rightarrow> 'img shape list" where
  "set_background add_picture slide b64_str =
     (case add_picture (strip_data_uri b64_str) of
        Some img \<Rightarrow> slide @ [Picture img]
      | None \<Rightarrow> slide)"

definition draw_presentation_ui ::
    "'img shape list \<Rightarrow> nat \<Rightarrow> rgb \<Rightarrow> nat \<Rightarrow> 'img shape list" where
  "draw_presentation_ui slide index rgb_color total_slides =
     slide @ [Line rgb_color, Circle rgb_color (zfill 2 (str_nat index))] @
     map (\<lambda>i. if i = index
              then Dot (255, 255, 255) None (Some rgb_color)
              else Dot (200, 200, 200) (Some 50) None)
         [1..<total_slides + 1]"

definition draw_text_content ::
    "'img shape list \<Rightarrow> SlideContent \<Rightarrow> rgb \<Rightarrow> 'img shape list" where
  "draw_text_content slide content rgb_color =
     slide @ [TitleBg, BodyBg, TitleBox (title content), AccentBar rgb_color,
              BodyBox (body_text content)]"

text \<open>
  The body of the loop of \<^verbatim>\<open>export\<close> for the slide at 0-based position \<open>idx\<close>
  (\<open>background_layer\<close> is its step 3.2: a new blank slide, with the picture when the
  payload is neither \<open>None\<close> nor empty), and the loop itself (\<^verbatim>\<open>for idx, content in enumerate(slides)\<close>). An exception of
  \<^verbatim>\<open>_hex_to_rgb\<close> is not caught and ends the export. Writing the file
  (\<^verbatim>\<open>prs.save\<close>) is outside the model.
\<close>

definition exporter_color :: "StyleProfile \<Rightarrow> SlideContent \<Rightarrow> string" where
  "exporter_color style content =
     dict_get (logic_color_map style) (framework_section content) ''#333333''"

definition background_layer ::
    "(string \<Rightarrow> 'img option) \<Rightarrow> SlideContent \<Rightarrow> 'img shape list" where
  "background_layer add_picture content =
     (case background_image_base64 content of
        None \<Rightarrow> []
      | Some b \<Rightarrow> if b = [] then [] else set_background add_picture [] b)"

definition export_slide ::
    "(string \<Rightarrow> 'img option) \<Rightarrow> StyleProfile \<Rightarrow> nat \<Rightarrow> nat \<Rightarrow> SlideContent
       \<Rightarrow> error + 'img shape list" where
  "export_slide add_picture style total_slides idx content =
     (let slide = background_layer add_picture content in
      case hex_to_rgb (exporter_color style content) of
        Inl e \<Rightarrow> Inl e
      | Inr rgb_color \<Rightarrow>
          Inr (draw_text_content
                 (draw_presentation_ui slide (idx + 1) rgb_color total_slides)
                 content rgb_color))"

fun export_loop ::
    "(string \<Rightarrow> 'img option) \<Rightarrow> StyleProfile \<Rightarrow> nat \<Rightarrow> nat \<Rightarrow> SlideContent list
       \<Rightarrow> error + 'img shape list list" where
  "export_loop add_picture style total_slides idx [] = Inr []"
| "export_loop add_picture style total_slides idx (content # rest) =
     (case export_slide add_picture style total_slides idx content of
        Inl e \<Rightarrow> Inl e
      | Inr page \<Rightarrow>
          (case export_loop add_picture style total_slides (idx + 1) rest of
             Inl e \<Rightarrow> Inl e
           | Inr pages \<Rightarrow> Inr (page # pages)))"

definition export ::
    "(string \<Rightarrow> 'img option) \<Rightarrow> SlideContent list \<Rightarrow> StyleProfile
       \<Rightarrow> error + 'img shape list list" where
  "export add_picture slides style = export_loop add_picture style (length slides) 0 slides"

section \<open>The HTML renderer (src/renderer.py)\<close>

text \<open>
  The Jinja2 template of \<^verbatim>\<open>_load_html_template\<close>, rendered with autoescape off, so
  every \<^verbatim>\<open>{{ ... }}\<close> is inserted as it is.

  \<open>jinja_for items body\<close> is \<^verbatim>\<open>{% for x in items %} body {% endfor %}\<close>: the body
  gets \<^verbatim>\<open>loop.index\<close> (from 1) and the item. In Jinja2 \<^verbatim>\<open>loop\<close> always names the
  innermost enclosing loop, which the bound variable \<open>loop_index\<close> of the inner body
  below reproduces: it hides the outer one.

  \<open>format_02d\<close> is \<^verbatim>\<open>"%02d" | format(n)\<close> for the non-negative \<^verbatim>\<open>loop.index\<close>.
\<close>

definition jinja_for :: "'a list \<Rightarrow> (nat \<Rightarrow> 'a \<Rightarrow> 'b) \<Rightarrow> 'b list" where
  "jinja_for items body = map (\<lambda>(k, x). body (k + 1) x) (enumerate 0 items)"

definition format_02d :: "nat \<Rightarrow> string" where
  "format_02d n = replicate (2 - length (str_nat n)) (CHR ''0'') @ str_nat n"

record progress_dot_div =
  dot_class :: string
  dot_style :: string

record slide_div =
  background_image_url :: string
  metro_line_color :: string
  badge_color :: string
  badge_text :: string
  progress_dots :: "progress_dot_div list"
  h1_border_color :: string
  h1_text :: string
  p_text :: string

definition renderer_color :: "StyleProfile \<Rightarrow> SlideContent \<Rightarrow> string" where
  "renderer_color style slide =
     dict_get (logic_color_map style) (framework_section slide) ''#333''"

definition renderer_background_url :: "string option \<Rightarrow> string" where
  "renderer_background_url payload =
     (case payload of
        None \<Rightarrow> []
      | Some b \<Rightarrow> if b = [] then [] else ''data:image/png;base64,'' @ b)"

definition render :: "SlideContent list \<Rightarrow> StyleProfile \<Rightarrow> slide_div list" where
  "render slides style =
     jinja_for slides (\<lambda>loop_index slide.
       let color = renderer_color style slide in
       \<lparr> background_image_url = renderer_background_url (background_image_base64 slide),
         metro_line_color = color,
         badge_color = color,
         badge_text = format_02d loop_index,
         progress_dots =
           jinja_for [1..<length slides + 1] (\<lambda>loop_index i.
             \<lparr> dot_class = ''progress-dot'' @ (if i = loop_index then '' active'' else []),
               dot_style = (if i = loop_index then ''border: 2px solid '' @ color @ '';''
                            else []) \<rparr>),
         h1_border_color = color,
         h1_text = title slide,
         p_text = body_text slide \<rparr>)"

section \<open>Reading a page and a slide unit\<close>

text \<open>
  The parts of an exported page the properties below speak about: the text of the badge,
  the row of progress dots (fill, transparency, outline), the pictures, the texts of the
  title and body boxes, and the accent colours of band, badge and bar.
\<close>

fun shape_badge :: "'img shape \<Rightarrow> string list" where
  "shape_badge (Circle c t) = [t]"
| "shape_badge _ = []"

fun shape_dot :: "'img shape \<Rightarrow> (rgb \<times> nat option \<times> rgb option) list" where
  "shape_dot (Dot fill transparency outline) = [(fill, transparency, outline)]"
| "shape_dot _ = []"

fun shape_picture :: "'img shape \<Rightarrow> 'img list" where
  "shape_picture (Picture img) = [img]"
| "shape_picture _ = []"

fun shape_text :: "'img shape \<Rightarrow> string list" where
  "shape_text (TitleBox t) = [t]"
| "shape_text (BodyBox t) = [t]"
| "shape_text _ = []"

fun shape_accent :: "'img shape \<Rightarrow> rgb list" where
  "shape_accent (Line c) = [c]"
| "shape_accent (Circle c t) = [c]"
| "shape_accent (AccentBar c) = [c]"
| "shape_accent _ = []"

definition badge_texts :: "'img shape list \<Rightarrow> string list" where
  "badge_texts page = concat (map shape_badge page)"

definition progress_row :: "'img shape list \<Rightarrow> (rgb \<times> nat option \<times> rgb option) list" where
  "progress_row page = concat (map shape_dot page)"

definition pictures :: "'img shape list \<Rightarrow> 'img list" where
  "pictures page = concat (map shape_picture page)"

definition page_texts :: "'img shape list \<Rightarrow> string list" where
  "page_texts page = concat (map shape_text page)"

definition accent_colors :: "'img shape list \<Rightarrow> rgb list" where
  "accent_colors page = concat (map shape_accent page)"

text \<open>
  The two visual states of an exported dot, and the 1-based positions of the dots in the
  active state: in a page (white fill with an outline) and in a slide unit of the HTML
  (class \<^verbatim>\<open>progress-dot active\<close>).
\<close>

definition active_dot :: "rgb \<Rightarrow> rgb \<times> nat option \<times> rgb option" where
  "active_dot accent = ((255, 255, 255), None, Some accent)"

definition inactive_dot :: "rgb \<times> nat option \<times> rgb option" where
  "inactive_dot = ((200, 200, 200), Some 50, None)"

definition exporter_active_positions :: "'img shape list \<Rightarrow> nat list" where
  "exporter_active_positions page =
     map fst (filter (\<lambda>(i, d). snd (snd d) \<noteq> None) (enumerate 1 (progress_row page)))"

definition renderer_active_positions :: "slide_div \<Rightarrow> nat list" where
  "renderer_active_positions unit_div =
     map fst (filter (\<lambda>(i, d). dot_class d = ''progress-dot active'')
                (enumerate 1 (progress_dots unit_div)))"

section \<open>Well-formed colours and failing backgrounds\<close>

text \<open>
  A colour string of six hexadecimal digits after any leading \<^verbatim>\<open>#\<close>, and a profile
  all of whose colours are such strings (every profile of the catalogue is one).
\<close>

definition valid_hex_color :: "string \<Rightarrow> bool" where
  "valid_hex_color s =
     (let h = dropWhile (\<lambda>c. c = CHR ''#'') s
      in length h = 6 \<and> list_all (\<lambda>c. hex_digit_value c \<noteq> None) h)"

definition wf_style :: "StyleProfile \<Rightarrow> bool" where
  "wf_style style = list_all (\<lambda>(k, c). valid_hex_color c) (logic_color_map style)"

text \<open>
  A background payload that gives no picture: absent, empty, or one on which decoding
  or insertion raises.
\<close>

definition background_fails :: "(string \<Rightarrow> 'img option) \<Rightarrow> string option \<Rightarrow> bool" where
  "background_fails add_picture payload =
     (case payload of
        None \<Rightarrow> True
      | Some b \<Rightarrow> b = [] \<or> add_picture (strip_data_uri b) = None)"

text \<open>
  The specification's wording of the exporter's prefix handling, for comparison with
  \<open>strip_data_uri\<close>: the payload without the part up to and including the first comma.
\<close>

definition after_first_comma :: "string \<Rightarrow> string" where
  "after_first_comma s = tl (dropWhile (\<lambda>c. c \<noteq> CHR '','') s)"

section \<open>Example inputs\<close>

definition example_slide :: "string \<Rightarrow> string \<Rightarrow> string option \<Rightarrow> SlideContent" where
  "example_slide tag heading payload =
     \<lparr> slide_id = ''slide'', framework_section = tag, title = heading,
       body_text = ''body'', background_image_base64 = payload, rationale = None \<rparr>"

definition example_deck :: "SlideContent list" where
  "example_deck =
     [example_slide ''point_opening'' ''A'' None,
      example_slide ''examples'' ''B'' (Some ''not an image''),
      example_slide ''point_closing'' ''C'' (Some ''data:image/png;base64,AAAA'')]"

definition example_add_picture :: "string \<Rightarrow> string option" where
  "example_add_picture b64 = (if b64 = ''AAAA'' then Some ''picture'' else None)"

text \<open>
  Two slides as \<^verbatim>\<open>create_pptx_from_slides\<close> and \<^verbatim>\<open>create_html_preview\<close> build them: the
  section tag is the slide's style key (\<^verbatim>\<open>slide_data.get("style", "default")\<close>), here
  \<^verbatim>\<open>modern_cafe\<close>, which is not a key of any colour map, and \<^verbatim>\<open>default\<close>.
\<close>

definition example_tag_deck :: "SlideContent list" where
  "example_tag_deck =
     [example_slide ''modern_cafe'' ''A'' None,
      example_slide ''default'' ''B'' None]"

text \<open>The slides on which the exporter's colour conversion does not raise.\<close>

definition color_ok :: "StyleProfile \<Rightarrow> SlideContent \<Rightarrow> bool" where
  "color_ok style content = (\<not> isl (hex_to_rgb (exporter_color style content)))"

section \<open>The style registry\<close>

lemma registry_keys:
  "fst ` set styles_registry =
     {''taipei_metro'', ''modern_cafe'', ''minimal_concrete'', ''warm_wood'', ''tech_gradient'',
      ''flat_infographic''}"
  by (simp add: styles_registry_def)

lemma registry_get_member: "registry_get k \<in> set (map snd styles_registry)"
proof (cases "map_of styles_registry k")
  case None
  have "METRO_STYLE \<in> set (map snd styles_registry)"
    unfolding styles_registry_def by simp
  with None show ?thesis by (simp add: registry_get_def dict_get_def)
next
  case (Some p)
  then have "(k, p) \<in> set styles_registry" by (rule map_of_SomeD)
  then have "p \<in> set (map snd styles_registry)" by force
  with Some show ?thesis by (simp add: registry_get_def dict_get_def)
qed

lemma registry_get_unknown:
  assumes "k \<notin> fst ` set styles_registry"
  shows "registry_get k = METRO_STYLE"
proof -
  from assms have "map_of styles_registry k = None"
    by (simp add: map_of_eq_None_iff)
  then show ?thesis by (simp add: registry_get_def dict_get_def)
qed

lemma registry_get_values:
  "registry_get ''taipei_metro'' = METRO_STYLE"
  "registry_get ''modern_cafe'' = MODERN_CAFE_STYLE"
  "registry_get ''minimal_concrete'' = MINIMAL_CONCRETE_STYLE"
  "registry_get ''warm_wood'' = WARM_WOOD_STYLE"
  "registry_get ''tech_gradient'' = TECH_GRADIENT_STYLE"
  "registry_get ''flat_infographic'' = FLAT_INFOGRAPHIC_STYLE"
  unfolding registry_get_def dict_get_def styles_registry_def by simp_all

lemma metro_neq_cafe: "METRO_STYLE \<noteq> MODERN_CAFE_STYLE"
proof
  assume "METRO_STYLE = MODERN_CAFE_STYLE"
  then have "name METRO_STYLE = name MODERN_CAFE_STYLE" by simp
  then show False by (simp add: METRO_STYLE_def MODERN_CAFE_STYLE_def)
qed

text \<open>
  Claim C5. For every key, \<open>StyleRegistry.get\<close> returns a profile of the catalogue and
  never raises (the lookup is \<^verbatim>\<open>dict.get\<close> with a default); for every key that is not
  in the catalogue it returns the Taipei Metro profile.
\<close>

theorem registry_get_never_fails:
  "registry_get k \<in> set (map snd styles_registry) \<and>
   (k \<notin> fst ` set styles_registry \<longrightarrow> registry_get k = METRO_STYLE)"
  using registry_get_member registry_get_unknown by blast

theorem registry_get_never_fails_witness:
  "''no_such_style'' \<notin> fst ` set styles_registry \<and>
   registry_get ''no_such_style'' = METRO_STYLE"
proof -
  have "''no_such_style'' \<notin> fst ` set styles_registry"
    by (simp add: registry_keys)
  with registry_get_never_fails [of "''no_such_style''"] show ?thesis by blast
qed

text \<open>
  Claim C10. \<open>StyleType.DEFAULT\<close> (the string \<^verbatim>\<open>default\<close>) is a member of the
  enumeration, the registry has no entry for it, and \<open>StyleRegistry.get\<close> of it gives the
  Taipei Metro profile, the same result as for every other key without an entry.
\<close>

theorem default_member_not_registered:
  "DEFAULT \<in> set all_style_types \<and>
   style_value DEFAULT = ''default'' \<and>
   map_of styles_registry (style_value DEFAULT) = None \<and>
   registry_get (style_value DEFAULT) = METRO_STYLE \<and>
   (\<forall>k. map_of styles_registry k = None \<longrightarrow>
        registry_get k = registry_get (style_value DEFAULT))"
proof -
  have none: "map_of styles_registry (style_value DEFAULT) = None"
    by (simp add: map_of_eq_None_iff registry_keys)
  have "\<And>k. map_of styles_registry k = None \<Longrightarrow> registry_get k = METRO_STYLE"
    by (simp add: registry_get_def dict_get_def)
  with none show ?thesis by (simp add: all_style_types_def)
qed

theorem default_member_not_registered_witness:
  "map_of styles_registry ''no_such_style'' = None \<and>
   registry_get ''no_such_style'' = registry_get (style_value DEFAULT) \<and>
   registry_get (style_value DEFAULT) = METRO_STYLE"
proof -
  have "map_of styles_registry ''no_such_style'' = None"
    by (simp add: map_of_eq_None_iff registry_keys)
  with default_member_not_registered show ?thesis by blast
qed

subsection \<open>Legacy keys\<close>

lemma style_values:
  "set (map style_value all_style_types) =
     {''default'', ''taipei_metro'', ''modern_cafe'', ''minimal_concrete'', ''warm_wood'',
      ''tech_gradient'', ''flat_infographic''}"
  by (simp add: all_style_types_def)

lemma remap_legacy_values:
  "remap_legacy_style ''professional'' = style_value TAIPEI_METRO"
  "remap_legacy_style ''creative'' = style_value MODERN_CAFE"
  "remap_legacy_style ''minimal'' = style_value MINIMAL_CONCRETE"
  "remap_legacy_style ''tech'' = style_value TECH_GRADIENT"
  "remap_legacy_style ''warm'' = style_value WARM_WOOD"
  unfolding remap_legacy_style_def style_values dict_get_def old_style_map_def by simp_all

text \<open>
  Claim C4, as stated, does not hold: \<open>StyleRegistry.get\<close> applies no remap, so the
  legacy key \<^verbatim>\<open>creative\<close> is an unknown key and gives the Taipei Metro profile, not the
  Modern Cafe profile of its current equivalent.
\<close>

theorem legacy_key_counterexample:
  "(''creative'', MODERN_CAFE) \<in> set old_style_map \<and>
   registry_get ''creative'' \<noteq> registry_get (style_value MODERN_CAFE)"
proof -
  have "registry_get ''creative'' = METRO_STYLE"
    by (rule registry_get_unknown) (simp add: registry_keys)
  moreover have "registry_get (style_value MODERN_CAFE) = MODERN_CAFE_STYLE"
    by (simp add: registry_get_values)
  moreover have "(''creative'', MODERN_CAFE) \<in> set old_style_map"
    by (simp add: old_style_map_def)
  ultimately show ?thesis using metro_neq_cafe by simp
qed

text \<open>
  Claim C4, amended. The remap is the caller's step (the editor's \<open>old_style_map\<close>),
  not part of \<open>StyleRegistry.get\<close>: for every legacy key of the table, the lookup of the
  key itself gives the Taipei Metro profile, the remap gives the value of the key's
  current equivalent, and the lookup of the remapped key gives the same profile as the
  lookup of the current equivalent.
\<close>

theorem legacy_key_remapped_by_caller:
  assumes "(k, t) \<in> set old_style_map"
  shows "registry_get k = METRO_STYLE \<and>
         remap_legacy_style k = style_value t \<and>
         registry_get (remap_legacy_style k) = registry_get (style_value t)"
proof -
  from assms consider
    "k = ''professional''" "t = TAIPEI_METRO" | "k = ''creative''" "t = MODERN_CAFE" |
    "k = ''minimal''" "t = MINIMAL_CONCRETE" | "k = ''tech''" "t = TECH_GRADIENT" |
    "k = ''warm''" "t = WARM_WOOD"
    unfolding old_style_map_def by auto
  then have "k \<notin> fst ` set styles_registry \<and> remap_legacy_style k = style_value t"
    by cases (simp_all add: registry_keys remap_legacy_values)
  then show ?thesis using registry_get_unknown by simp
qed

theorem legacy_key_remapped_by_caller_witness:
  "(''creative'', MODERN_CAFE) \<in> set old_style_map \<and>
   registry_get ''creative'' = METRO_STYLE \<and>
   registry_get (remap_legacy_style ''creative'') = MODERN_CAFE_STYLE"
proof -
  have h: "(''creative'', MODERN_CAFE) \<in> set old_style_map"
    by (simp add: old_style_map_def)
  from legacy_key_remapped_by_caller [OF h] h show ?thesis
    by (simp add: registry_get_values)
qed

section \<open>Hexadecimal colours\<close>

lemma hex_digit_value_cases:
  assumes "hex_digit_value c = Some d"
  shows "d < 16 \<and> \<not> py_isspace c \<and> c \<noteq> CHR ''+'' \<and> c \<noteq> CHR ''-'' \<and> c \<noteq> CHR ''_'' \<and>
         c \<noteq> CHR ''x'' \<and> c \<noteq> CHR ''X'' \<and> c \<noteq> CHR ''#''"
  using assms unfolding hex_digit_value_def py_isspace_def Let_def
  by (auto split: if_splits)

lemma py_int16_two_digits:
  assumes a: "hex_digit_value a = Some va" and b: "hex_digit_value b = Some vb"
  shows "py_int16 [a, b] = Inr (int (16 * va + vb))"
proof -
  note A = hex_digit_value_cases [OF a] and B = hex_digit_value_cases [OF b]
  from A B have strip: "py_strip [a, b] = [a, b]"
    by (simp add: py_strip_def)
  from a b A B have scan: "scan_digits False 0 [a, b] = Some (16 * va + vb)"
    by simp
  from A B strip scan show ?thesis
    by (simp add: py_int16_def Let_def)
qed

lemma lstrip_hashes:
  assumes "hex_digit_value a = Some va"
  shows "dropWhile (\<lambda>c. c = CHR ''#'') (replicate n (CHR ''#'') @ a # rest) = a # rest"
proof -
  from hex_digit_value_cases [OF assms] have "a \<noteq> CHR ''#''" by simp
  then show ?thesis by (induction n) simp_all
qed

lemma hex_to_rgb_six_digits:
  assumes h: "dropWhile (\<lambda>c. c = CHR ''#'') s = [a, b, c, d, e, f]"
      and "hex_digit_value a = Some va" and "hex_digit_value b = Some vb"
      and "hex_digit_value c = Some vc" and "hex_digit_value d = Some vd"
      and "hex_digit_value e = Some ve" and "hex_digit_value f = Some vf"
  shows "hex_to_rgb s = Inr (int (16 * va + vb), int (16 * vc + vd), int (16 * ve + vf))"
proof -
  note D = assms(2-) [THEN hex_digit_value_cases]
  have r: "py_int16 [a, b] = Inr (int (16 * va + vb))"
    and g: "py_int16 [c, d] = Inr (int (16 * vc + vd))"
    and bl: "py_int16 [e, f] = Inr (int (16 * ve + vf))"
    using assms by (simp_all add: py_int16_two_digits)
  have bounds: "16 * va + vb \<le> 255" "16 * vc + vd \<le> 255" "16 * ve + vf \<le> 255"
    using D by simp_all
  show ?thesis
    unfolding hex_to_rgb_def h Let_def using r g bl bounds
    by (simp add: RGBColor_def)
qed

lemma hex_digit_values:
  "hex_digit_value CHR ''E'' = Some 14" "hex_digit_value CHR ''3'' = Some 3"
  "hex_digit_value CHR ''0'' = Some 0" "hex_digit_value CHR ''2'' = Some 2"
  "hex_digit_value CHR ''C'' = Some 12"
  by (simp_all add: hex_digit_value_def)

text \<open>
  Claim C8. For every string of six hexadecimal digits \<open>a b c d e f\<close> (upper or lower
  case), with or without leading \<^verbatim>\<open>#\<close>, \<open>_hex_to_rgb\<close> returns the three channels
  \<open>int(ab, 16)\<close>, \<open>int(cd, 16)\<close>, \<open>int(ef, 16)\<close> in this order, each the positional value
  of its two digits and at most 255; at \<^verbatim>\<open>#E3002C\<close> this is (227, 0, 44).
\<close>

theorem hex_to_rgb_exact:
  assumes "hex_digit_value a = Some va" and "hex_digit_value b = Some vb"
      and "hex_digit_value c = Some vc" and "hex_digit_value d = Some vd"
      and "hex_digit_value e = Some ve" and "hex_digit_value f = Some vf"
  shows "py_int16 [a, b] = Inr (int (16 * va + vb)) \<and>
         py_int16 [c, d] = Inr (int (16 * vc + vd)) \<and>
         py_int16 [e, f] = Inr (int (16 * ve + vf)) \<and>
         hex_to_rgb (replicate n (CHR ''#'') @ [a, b, c, d, e, f]) =
           Inr (int (16 * va + vb), int (16 * vc + vd), int (16 * ve + vf)) \<and>
         16 * va + vb \<le> 255 \<and> 16 * vc + vd \<le> 255 \<and> 16 * ve + vf \<le> 255"
proof -
  note D = assms [THEN hex_digit_value_cases]
  have channels:
    "py_int16 [a, b] = Inr (int (16 * va + vb))"
    "py_int16 [c, d] = Inr (int (16 * vc + vd))"
    "py_int16 [e, f] = Inr (int (16 * ve + vf))"
    using assms by (simp_all add: py_int16_two_digits)
  have bounds: "16 * va + vb \<le> 255" "16 * vc + vd \<le> 255" "16 * ve + vf \<le> 255"
    using D by simp_all
  have "dropWhile (\<lambda>c. c = CHR ''#'') (replicate n (CHR ''#'') @ [a, b, c, d, e, f])
          = [a, b, c, d, e, f]"
    using lstrip_hashes [OF assms(1)] by simp
  then have "hex_to_rgb (replicate n (CHR ''#'') @ [a, b, c, d, e, f]) =
               Inr (int (16 * va + vb), int (16 * vc + vd), int (16 * ve + vf))"
    using assms by (rule hex_to_rgb_six_digits)
  with channels bounds show ?thesis by simp
qed

theorem hex_to_rgb_exact_witness:
  "hex_digit_value CHR ''E'' = Some 14 \<and> hex_digit_value CHR ''3'' = Some 3 \<and>
   hex_digit_value CHR ''0'' = Some 0 \<and> hex_digit_value CHR ''2'' = Some 2 \<and>
   hex_digit_value CHR ''C'' = Some 12 \<and>
   hex_to_rgb ''#E3002C'' = Inr (227, 0, 44) \<and> hex_to_rgb ''E3002C'' = Inr (227, 0, 44)"
  using hex_to_rgb_exact [of "CHR ''E''" 14 "CHR ''3''" 3 "CHR ''0''" 0 "CHR ''0''" 0
          "CHR ''2''" 2 "CHR ''C''" 12 1]
        hex_to_rgb_exact [of "CHR ''E''" 14 "CHR ''3''" 3 "CHR ''0''" 0 "CHR ''0''" 0
          "CHR ''2''" 2 "CHR ''C''" 12 0]
  by (simp add: hex_digit_values)

lemma valid_hex_color_converts:
  assumes "valid_hex_color s"
  shows "\<exists>rgb. hex_to_rgb s = Inr rgb"
proof -
  define h where "h = dropWhile (\<lambda>c. c = CHR ''#'') s"
  from assms have len: "length h = 6"
    and digits: "list_all (\<lambda>c. hex_digit_value c \<noteq> None) h"
    by (simp_all add: valid_hex_color_def h_def Let_def)
  from len obtain a b c d e f where h: "h = [a, b, c, d, e, f]"
    by (auto simp add: length_Suc_conv eval_nat_numeral)
  from digits h obtain va vb vc vd ve vf where
    "hex_digit_value a = Some va" "hex_digit_value b = Some vb" "hex_digit_value c = Some vc"
    "hex_digit_value d = Some vd" "hex_digit_value e = Some ve" "hex_digit_value f = Some vf"
    by auto
  with h show ?thesis
    using hex_to_rgb_six_digits [of s a b c d e f] by (simp add: h_def)
qed

lemma fallback_gray_valid: "valid_hex_color ''#333333''"
  by (simp add: valid_hex_color_def hex_digit_value_def)

lemma wf_style_color:
  assumes "wf_style style"
  shows "valid_hex_color (exporter_color style content)"
proof (cases "map_of (logic_color_map style) (framework_section content)")
  case None
  then show ?thesis by (simp add: exporter_color_def dict_get_def fallback_gray_valid)
next
  case (Some c)
  then have "(framework_section content, c) \<in> set (logic_color_map style)"
    by (rule map_of_SomeD)
  with assms have "valid_hex_color c"
    by (auto simp add: wf_style_def list_all_iff)
  with Some show ?thesis by (simp add: exporter_color_def dict_get_def)
qed

section \<open>The export loop\<close>

lemma export_slide_Inl:
  "\<not> color_ok style content \<Longrightarrow> export_slide ap style n idx content = Inl ValueError"
  by (cases "hex_to_rgb (exporter_color style content)")
     (auto simp add: color_ok_def export_slide_def Let_def intro: error.exhaust)

lemma export_slide_Inr:
  "color_ok style content \<Longrightarrow>
   export_slide ap style n idx content = Inr (projr (export_slide ap style n idx content))"
  by (cases "hex_to_rgb (exporter_color style content)")
     (auto simp add: color_ok_def export_slide_def Let_def)

text \<open>
  The loop in closed form: it raises when the colour of some slide does not convert,
  and otherwise gives one page per slide, the page of the slide at 0-based position
  \<open>j\<close> built from that slide and the index \<open>idx + j\<close> alone.
\<close>

lemma export_loop_closed_form:
  "export_loop ap style n idx slides =
     (if \<forall>j<length slides. color_ok style (slides ! j)
      then Inr (map (\<lambda>j. projr (export_slide ap style n (idx + j) (slides ! j)))
                  [0..<length slides])
      else Inl ValueError)"
proof (induction slides arbitrary: idx)
  case Nil
  show ?case by simp
next
  case (Cons content rest)
  show ?case
  proof (cases "color_ok style content")
    case False
    then have "\<not> (\<forall>j<length (content # rest). color_ok style ((content # rest) ! j))"
      by auto
    with False show ?thesis by (simp add: export_slide_Inl)
  next
    case True
    note head = export_slide_Inr [OF True, of ap n idx]
    have all: "(\<forall>j<length (content # rest). color_ok style ((content # rest) ! j)) \<longleftrightarrow>
               (\<forall>j<length rest. color_ok style (rest ! j))"
      using True by (auto simp add: All_less_Suc2)
    have shift: "map (\<lambda>j. projr (export_slide ap style n (idx + j) ((content # rest) ! j)))
                   [0..<length (content # rest)] =
                 projr (export_slide ap style n idx content) #
                 map (\<lambda>j. projr (export_slide ap style n (Suc idx + j) (rest ! j)))
                   [0..<length rest]"
      by (simp add: upt_conv_Cons map_Suc_upt [symmetric] del: upt_Suc)
    show ?thesis
      apply (subst export_loop.simps)
      apply (subst head)
      apply (simp only: sum.case Cons.IH all shift Suc_eq_plus1 [symmetric])
      apply (simp del: upt_Suc)
      done
  qed
qed

lemma export_closed_form:
  "export ap slides style =
     (if \<forall>j<length slides. color_ok style (slides ! j)
      then Inr (map (\<lambda>j. projr (export_slide ap style (length slides) j (slides ! j)))
                  [0..<length slides])
      else Inl ValueError)"
  by (simp add: export_def export_loop_closed_form)

lemma wf_style_color_ok: "wf_style style \<Longrightarrow> color_ok style content"
  using valid_hex_color_converts [OF wf_style_color, of style content]
  by (auto simp add: color_ok_def)

subsection \<open>The shapes of a page\<close>

lemma dots_of_row:
  "concat (map shape_dot (map (\<lambda>i. if i = index then Dot a b c else Dot a' b' c') xs)) =
     map (\<lambda>i. if i = index then (a, b, c) else (a', b', c')) xs"
  by (induction xs) simp_all

lemma no_badge_in_row:
  "concat (map shape_badge (map (\<lambda>i. if i = index then Dot a b c else Dot a' b' c') xs)) = []"
  by (induction xs) simp_all

lemma no_text_in_row:
  "concat (map shape_text (map (\<lambda>i. if i = index then Dot a b c else Dot a' b' c') xs)) = []"
  by (induction xs) simp_all

lemma no_picture_in_row:
  "concat (map shape_picture (map (\<lambda>i. if i = index then Dot a b c else Dot a' b' c') xs)) = []"
  by (induction xs) simp_all

lemma background_layer_cases:
  "background_layer ap content = [] \<or> (\<exists>img. background_layer ap content = [Picture img])"
  by (simp add: background_layer_def set_background_def split: option.splits)

lemma background_layer_fails:
  "background_fails ap (background_image_base64 content) \<Longrightarrow> background_layer ap content = []"
  by (auto simp add: background_layer_def background_fails_def set_background_def
      split: option.splits)

lemma page_of_slide:
  assumes "hex_to_rgb (exporter_color style content) = Inr rgb_color"
  shows "projr (export_slide ap style n idx content) =
           background_layer ap content @
           [Line rgb_color, Circle rgb_color (zfill 2 (str_nat (idx + 1)))] @
           map (\<lambda>i. if i = idx + 1
                     then Dot (255, 255, 255) None (Some rgb_color)
                     else Dot (200, 200, 200) (Some 50) None) [1..<n + 1] @
           [TitleBg, BodyBg, TitleBox (title content), AccentBar rgb_color,
            BodyBox (body_text content)]"
  using assms
  by (simp add: export_slide_def Let_def draw_text_content_def draw_presentation_ui_def)

lemma page_badge:
  assumes "color_ok style content"
  shows "badge_texts (projr (export_slide ap style n idx content)) = [zfill 2 (str_nat (idx + 1))]"
proof -
  from assms obtain rgb_color where c: "hex_to_rgb (exporter_color style content) = Inr rgb_color"
    by (cases "hex_to_rgb (exporter_color style content)") (auto simp add: color_ok_def)
  from background_layer_cases [of ap content] show ?thesis
    unfolding page_of_slide [OF c] badge_texts_def
    by (auto simp add: no_badge_in_row simp del: upt_Suc map_map)
qed

lemma page_texts_of_slide:
  assumes "color_ok style content"
  shows "page_texts (projr (export_slide ap style n idx content)) =
           [title content, body_text content]"
proof -
  from assms obtain rgb_color where c: "hex_to_rgb (exporter_color style content) = Inr rgb_color"
    by (cases "hex_to_rgb (exporter_color style content)") (auto simp add: color_ok_def)
  from background_layer_cases [of ap content] show ?thesis
    unfolding page_of_slide [OF c] page_texts_def
    by (auto simp add: no_text_in_row simp del: upt_Suc map_map)
qed

lemma page_pictures:
  assumes "color_ok style content"
  shows "pictures (projr (export_slide ap style n idx content)) =
           pictures (background_layer ap content)"
proof -
  from assms obtain rgb_color where c: "hex_to_rgb (exporter_color style content) = Inr rgb_color"
    by (cases "hex_to_rgb (exporter_color style content)") (auto simp add: color_ok_def)
  show ?thesis
    unfolding page_of_slide [OF c] pictures_def
    by (simp add: no_picture_in_row del: upt_Suc map_map)
qed

lemma page_progress_row:
  assumes c: "hex_to_rgb (exporter_color style content) = Inr rgb_color"
  shows "progress_row (projr (export_slide ap style n idx content)) =
           map (\<lambda>i. if i = idx + 1 then active_dot rgb_color else inactive_dot) [1..<n + 1]"
proof -
  from background_layer_cases [of ap content] show ?thesis
    unfolding page_of_slide [OF c] progress_row_def active_dot_def inactive_dot_def
    by (auto simp add: dots_of_row simp del: upt_Suc map_map)
qed

text \<open>
  Claim C6. For every deck of \<open>N\<close> slides (and a profile whose colours are well-formed,
  as the data model requires), the exporter returns a document of exactly \<open>N\<close> pages in
  the order of the input: the page at 1-based position \<open>k\<close> carries the title and body
  of the \<open>k\<close>-th slide, and its badge holds exactly \<^verbatim>\<open>str(k).zfill(2)\<close>.
\<close>

theorem export_one_page_per_slide:
  assumes "wf_style style"
  shows "\<exists>pages. export ap slides style = Inr pages \<and> length pages = length slides \<and>
           (\<forall>k<length slides.
              page_texts (pages ! k) = [title (slides ! k), body_text (slides ! k)] \<and>
              badge_texts (pages ! k) = [zfill 2 (str_nat (k + 1))])"
proof -
  let ?pages = "map (\<lambda>j. projr (export_slide ap style (length slides) j (slides ! j)))
                  [0..<length slides]"
  from assms have ok: "\<And>content. color_ok style content" by (rule wf_style_color_ok)
  then have "export ap slides style = Inr ?pages"
    by (simp add: export_closed_form)
  moreover have "length ?pages = length slides" by simp
  moreover have "\<forall>k<length slides.
      page_texts (?pages ! k) = [title (slides ! k), body_text (slides ! k)] \<and>
      badge_texts (?pages ! k) = [zfill 2 (str_nat (k + 1))]"
    using ok by (simp add: page_badge page_texts_of_slide del: upt_Suc)
  ultimately show ?thesis by blast
qed

lemma metro_wf: "wf_style METRO_STYLE"
  by (simp add: wf_style_def METRO_STYLE_def valid_hex_color_def hex_digit_value_def)

lemma badge_values:
  "zfill 2 (str_nat 1) = ''01''" "zfill 2 (str_nat 2) = ''02''" "zfill 2 (str_nat 3) = ''03''"
  "zfill 2 (str_nat (Suc 0)) = ''01''" "zfill 2 (str_nat (Suc (Suc 0))) = ''02''"
  by code_simp+

theorem export_one_page_per_slide_witness:
  "wf_style METRO_STYLE \<and>
   (\<exists>pages. export example_add_picture example_deck METRO_STYLE = Inr pages \<and>
      length pages = 3 \<and>
      badge_texts (pages ! 0) = [''01''] \<and> page_texts (pages ! 0) = [''A'', ''body''] \<and>
      badge_texts (pages ! 1) = [''02''] \<and> page_texts (pages ! 1) = [''B'', ''body''] \<and>
      badge_texts (pages ! 2) = [''03''] \<and> page_texts (pages ! 2) = [''C'', ''body''])"
proof -
  have len: "length example_deck = 3" by (simp add: example_deck_def)
  from export_one_page_per_slide [OF metro_wf, of example_add_picture example_deck]
  obtain pages where e: "export example_add_picture example_deck METRO_STYLE = Inr pages"
    and l: "length pages = 3"
    and p: "\<forall>k<3. page_texts (pages ! k) = [title (example_deck ! k), body_text (example_deck ! k)]
              \<and> badge_texts (pages ! k) = [zfill 2 (str_nat (k + 1))]"
    unfolding len by blast
  from p [rule_format, of 0]
  have "page_texts (pages ! 0) = [''A'', ''body''] \<and> badge_texts (pages ! 0) = [''01'']"
    using badge_values by (simp add: example_deck_def example_slide_def)
  moreover from p [rule_format, of 1]
  have "page_texts (pages ! 1) = [''B'', ''body''] \<and> badge_texts (pages ! 1) = [''02'']"
    using badge_values by (simp add: example_deck_def example_slide_def)
  moreover from p [rule_format, of 2]
  have "page_texts (pages ! 2) = [''C'', ''body''] \<and> badge_texts (pages ! 2) = [''03'']"
    using badge_values by (simp add: example_deck_def example_slide_def)
  ultimately show ?thesis using metro_wf e l by blast
qed

subsection \<open>Backgrounds that fail\<close>

lemma export_Inr_nth:
  assumes "export ap slides style = Inr pages"
  shows "length pages = length slides \<and>
         (\<forall>j<length slides.
            pages ! j = projr (export_slide ap style (length slides) j (slides ! j)))"
proof -
  from assms have
    "pages = map (\<lambda>j. projr (export_slide ap style (length slides) j (slides ! j)))
               [0..<length slides]"
    by (simp add: export_closed_form split: if_splits)
  then show ?thesis by simp
qed

lemma export_slide_without_background:
  assumes "background_fails ap (background_image_base64 content)"
  shows "export_slide ap style n idx (content\<lparr>background_image_base64 := None\<rparr>) =
         export_slide ap style n idx content"
  using background_layer_fails [OF assms]
  by (simp add: export_slide_def Let_def exporter_color_def draw_text_content_def
      background_layer_def split: sum.splits)

lemma color_ok_payload:
  "color_ok style (content\<lparr>background_image_base64 := payload\<rparr>) = color_ok style content"
  by (simp add: color_ok_def exporter_color_def)

lemma export_Inl_iff:
  "export ap slides style = Inl ValueError \<longleftrightarrow> (\<exists>j<length slides. \<not> color_ok style (slides ! j))"
  by (auto simp add: export_closed_form)

text \<open>
  Claim C7. A slide whose background payload is absent, empty, or fails in decoding or
  insertion never makes the export raise: the export of the deck is the export of the
  same deck with that slide's payload absent; the export raises exactly when the colour
  of some slide does not convert (so with a well-formed profile it succeeds), the page
  of that slide has no picture, and whatever payload the slide carries, every other
  page of the deck is the same.
\<close>

theorem export_background_fail_soft:
  assumes k: "k < length slides"
      and fails: "background_fails ap (background_image_base64 (slides ! k))"
  shows "export ap slides style =
           export ap (slides[k := (slides ! k)\<lparr>background_image_base64 := None\<rparr>]) style \<and>
         (export ap slides style = Inl ValueError \<longleftrightarrow>
            (\<exists>j<length slides. \<not> color_ok style (slides ! j))) \<and>
         (wf_style style \<longrightarrow>
            (\<exists>pages. export ap slides style = Inr pages \<and> length pages = length slides \<and>
               pictures (pages ! k) = [])) \<and>
         (\<forall>payload pages pages' j.
            export ap slides style = Inr pages \<and>
            export ap (slides[k := (slides ! k)\<lparr>background_image_base64 := payload\<rparr>]) style
              = Inr pages' \<and>
            j < length slides \<and> j \<noteq> k \<longrightarrow> pages' ! j = pages ! j)"
proof -
  let ?without = "slides[k := (slides ! k)\<lparr>background_image_base64 := None\<rparr>]"
  have same_slide: "export_slide ap style n j (?without ! j) = export_slide ap style n j (slides ! j)"
    if "j < length slides" for j n
    using that k fails by (cases "j = k") (simp_all add: export_slide_without_background)
  have same_ok: "color_ok style (?without ! j) = color_ok style (slides ! j)"
    if "j < length slides" for j
    using that k by (cases "j = k") (simp_all add: color_ok_payload)
  have first: "export ap slides style = export ap ?without style"
    unfolding export_closed_form by (simp add: same_slide same_ok cong: map_cong)
  have third: "\<exists>pages. export ap slides style = Inr pages \<and> length pages = length slides \<and>
                 pictures (pages ! k) = []" if wf: "wf_style style"
  proof -
    from wf have ok: "\<And>content. color_ok style content" by (rule wf_style_color_ok)
    then obtain pages where e: "export ap slides style = Inr pages"
      by (simp add: export_closed_form)
    from export_Inr_nth [OF e] k have
      "length pages = length slides"
      "pages ! k = projr (export_slide ap style (length slides) k (slides ! k))"
      by simp_all
    moreover have "pictures (projr (export_slide ap style (length slides) k (slides ! k))) = []"
      using page_pictures [OF ok, of ap "length slides" k "slides ! k"]
        background_layer_fails [OF fails]
      by (simp add: pictures_def)
    ultimately show ?thesis using e by simp
  qed
  have fourth: "pages' ! j = pages ! j"
    if "export ap slides style = Inr pages"
      and "export ap (slides[k := (slides ! k)\<lparr>background_image_base64 := payload\<rparr>]) style
             = Inr pages'"
      and "j < length slides" and "j \<noteq> k" for payload pages pages' j
    using export_Inr_nth [OF that(1)] export_Inr_nth [OF that(2)] that(3,4) by simp
  from first export_Inl_iff third fourth show ?thesis by blast
qed

theorem export_background_fail_soft_witness:
  "1 < length example_deck \<and>
   background_fails example_add_picture (background_image_base64 (example_deck ! 1)) \<and>
   export example_add_picture example_deck METRO_STYLE =
     export example_add_picture
       (example_deck[1 := (example_deck ! 1)\<lparr>background_image_base64 := None\<rparr>]) METRO_STYLE \<and>
   (\<exists>pages. export example_add_picture example_deck METRO_STYLE = Inr pages \<and>
      length pages = length example_deck \<and> pictures (pages ! 1) = [])"
proof -
  have k: "1 < length example_deck" by (simp add: example_deck_def)
  have fails:
    "background_fails example_add_picture (background_image_base64 (example_deck ! 1))"
    by (simp add: example_deck_def example_slide_def background_fails_def strip_data_uri_def
        example_add_picture_def)
  from export_background_fail_soft [OF k fails, of METRO_STYLE] metro_wf k fails
  show ?thesis by blast
qed

section \<open>The data-URI prefix of a background payload\<close>

lemma py_split_nonempty: "py_split sep s \<noteq> []"
  by (induction s) (simp_all split: list.splits)

lemma py_split_first: "py_split sep s ! 0 = takeWhile (\<lambda>c. c \<noteq> sep) s"
proof (induction s)
  case Nil
  show ?case by simp
next
  case (Cons c cs)
  then show ?case
    using py_split_nonempty [of sep cs] by (cases "py_split sep cs") auto
qed

lemma py_split_second:
  assumes "sep \<in> set s"
  shows "1 < length (py_split sep s) \<and>
         py_split sep s ! 1 =
           takeWhile (\<lambda>c. c \<noteq> sep) (tl (dropWhile (\<lambda>c. c \<noteq> sep) s))"
  using assms
proof (induction s)
  case Nil
  then show ?case by simp
next
  case (Cons c cs)
  show ?case
  proof (cases "c = sep")
    case True
    then show ?thesis
      using py_split_first [of sep cs] py_split_nonempty [of sep cs]
      by (cases "py_split sep cs") auto
  next
    case False
    with Cons.prems have "sep \<in> set cs" by simp
    from Cons.IH [OF this] False show ?thesis
      by (cases "py_split sep cs") auto
  qed
qed

lemma strip_data_uri_no_comma: "CHR '','' \<notin> set p \<Longrightarrow> strip_data_uri p = p"
  by (simp add: strip_data_uri_def)

lemma strip_data_uri_comma:
  "CHR '','' \<in> set p \<Longrightarrow>
   strip_data_uri p = takeWhile (\<lambda>c. c \<noteq> CHR '','') (after_first_comma p)"
  using py_split_second [of "CHR '',''" p]
  by (simp add: strip_data_uri_def after_first_comma_def)

lemma jinja_for_nth:
  "k < length items \<Longrightarrow> jinja_for items body ! k = body (k + 1) (items ! k)"
  by (simp add: jinja_for_def nth_enumerate_eq)

lemma jinja_for_length: "length (jinja_for items body) = length items"
  by (simp add: jinja_for_def)

lemma render_background_url:
  "k < length slides \<Longrightarrow>
   background_image_url (render slides style ! k) =
     renderer_background_url (background_image_base64 (slides ! k))"
  by (simp add: render_def jinja_for_nth Let_def)

lemma background_layer_payload:
  "p \<noteq> [] \<Longrightarrow>
   background_layer ap (content\<lparr>background_image_base64 := Some p\<rparr>) =
     (case ap (strip_data_uri p) of Some img \<Rightarrow> [Picture img] | None \<Rightarrow> [])"
  by (simp add: background_layer_def set_background_def split: option.splits)

lemma background_layer_empty:
  "background_layer ap (content\<lparr>background_image_base64 := Some []\<rparr>) = []"
  by (simp add: background_layer_def)

text \<open>
  Claim C9, as stated for every payload, does not hold at the empty payload: both
  components guard the payload (\<^verbatim>\<open>if content.background_image_base64\<close>,
  \<^verbatim>\<open>{% if slide.background_image_base64 %}\<close>), so the renderer emits an empty URL
  and not the prefix followed by the payload, and the exporter decodes nothing, even
  with a decoder that accepts every string.
\<close>

theorem empty_payload_counterexample:
  "renderer_background_url (Some []) = [] \<and>
   renderer_background_url (Some []) \<noteq> ''data:image/png;base64,'' @ [] \<and>
   background_image_url (render [example_slide ''examples'' ''B'' (Some [])] METRO_STYLE ! 0) = [] \<and>
   background_layer (\<lambda>b64. Some b64) (example_slide ''examples'' ''B'' (Some [])) = []"
  by (simp add: renderer_background_url_def render_background_url background_layer_def
      example_slide_def)

text \<open>
  Claim C9, amended to non-empty payloads that hold at most one comma (a data-URI
  prefix and base64 data, or base64 data alone). The exporter decodes the payload
  without the part up to and including the first comma, and a payload without a comma
  as it is. The renderer emits \<^verbatim>\<open>data:image/png;base64,\<close> followed by the stored
  payload as it is, so for a payload that already starts with this prefix the URL of
  the slide unit carries the prefix twice, while the exporter decodes the data without
  it. An empty payload is skipped by both.
\<close>

theorem data_uri_prefix_asymmetry:
  "(CHR '','' \<notin> set p \<longrightarrow> strip_data_uri p = p) \<and>
   (CHR '','' \<in> set p \<and> CHR '','' \<notin> set (after_first_comma p) \<longrightarrow>
      strip_data_uri p = after_first_comma p) \<and>
   (p \<noteq> [] \<longrightarrow>
      background_layer ap (content\<lparr>background_image_base64 := Some p\<rparr>) =
        (case ap (strip_data_uri p) of Some img \<Rightarrow> [Picture img] | None \<Rightarrow> [])) \<and>
   (p \<noteq> [] \<longrightarrow> renderer_background_url (Some p) = ''data:image/png;base64,'' @ p) \<and>
   (k < length slides \<longrightarrow>
      background_image_url (render slides style ! k) =
        renderer_background_url (background_image_base64 (slides ! k))) \<and>
   renderer_background_url (Some (''data:image/png;base64,'' @ r)) =
     ''data:image/png;base64,'' @ ''data:image/png;base64,'' @ r \<and>
   (CHR '','' \<notin> set r \<longrightarrow> strip_data_uri (''data:image/png;base64,'' @ r) = r) \<and>
   renderer_background_url (Some []) = [] \<and>
   background_layer ap (content\<lparr>background_image_base64 := Some []\<rparr>) = []"
proof -
  have a: "CHR '','' \<in> set p \<and> CHR '','' \<notin> set (after_first_comma p) \<longrightarrow>
           strip_data_uri p = after_first_comma p"
    by (auto simp add: strip_data_uri_comma)
  have b: "CHR '','' \<notin> set r \<longrightarrow> strip_data_uri (''data:image/png;base64,'' @ r) = r"
    by (auto simp add: strip_data_uri_comma after_first_comma_def)
  have c: "renderer_background_url (Some (''data:image/png;base64,'' @ r)) =
     ''data:image/png;base64,'' @ ''data:image/png;base64,'' @ r"
    by (simp add: renderer_background_url_def)
  have d: "p \<noteq> [] \<longrightarrow> renderer_background_url (Some p) = ''data:image/png;base64,'' @ p"
    by (simp add: renderer_background_url_def)
  have e: "renderer_background_url (Some []) = []"
    by (simp add: renderer_background_url_def)
  from a b c d e strip_data_uri_no_comma render_background_url background_layer_payload
    background_layer_empty
  show ?thesis by blast
qed

theorem data_uri_prefix_asymmetry_witness:
  "CHR '','' \<notin> set ''AAAA'' \<and> strip_data_uri ''AAAA'' = ''AAAA'' \<and>
   CHR '','' \<in> set ''data:image/png;base64,AAAA'' \<and>
   CHR '','' \<notin> set (after_first_comma ''data:image/png;base64,AAAA'') \<and>
   strip_data_uri ''data:image/png;base64,AAAA'' = ''AAAA'' \<and>
   ''data:image/png;base64,AAAA'' \<noteq> [] \<and>
   background_layer example_add_picture
     (example_slide ''point_closing'' ''C'' (Some ''data:image/png;base64,AAAA''))
     = [Picture ''picture''] \<and>
   2 < length example_deck \<and>
   background_image_url (render example_deck METRO_STYLE ! 2) =
     ''data:image/png;base64,data:image/png;base64,AAAA''"
proof -
  have plain: "CHR '','' \<notin> set ''AAAA''" by simp
  have prefixed: "CHR '','' \<in> set ''data:image/png;base64,AAAA''" by simp
  have rest: "CHR '','' \<notin> set (after_first_comma ''data:image/png;base64,AAAA'')"
    by (simp add: after_first_comma_def)
  have k: "2 < length example_deck" by (simp add: example_deck_def)
  have payload: "background_image_base64 (example_deck ! 2) = Some ''data:image/png;base64,AAAA''"
    by (simp add: example_deck_def example_slide_def)
  have slide:
    "(example_slide ''point_closing'' ''C'' None)
       \<lparr>background_image_base64 := Some ''data:image/png;base64,AAAA''\<rparr> =
     example_slide ''point_closing'' ''C'' (Some ''data:image/png;base64,AAAA'')"
    by (simp add: example_slide_def)
  from data_uri_prefix_asymmetry
         [where p = "''AAAA''" and k = 2 and slides = example_deck and style = METRO_STYLE
            and r = "''AAAA''" and ap = example_add_picture
            and content = "example_slide ''point_closing'' ''C'' None"]
       data_uri_prefix_asymmetry
         [where p = "''data:image/png;base64,AAAA''" and k = 2 and slides = example_deck
            and style = METRO_STYLE and r = "''AAAA''" and ap = example_add_picture
            and content = "example_slide ''point_closing'' ''C'' None"]
       plain prefixed rest k payload slide
  show ?thesis by (simp add: after_first_comma_def example_add_picture_def)
qed

section \<open>Badges, colours and progress dots in both outputs\<close>

lemma digit_char_code: "d < 10 \<Longrightarrow> of_char (digit_char d) = 48 + d"
  by (simp add: digit_char_def)

lemma digit_char_not_sign:
  assumes "d < 10"
  shows "digit_char d \<noteq> CHR ''+'' \<and> digit_char d \<noteq> CHR ''-''"
proof -
  have "(of_char (digit_char d) :: nat) \<noteq> of_char (CHR ''+'')"
    "(of_char (digit_char d) :: nat) \<noteq> of_char (CHR ''-'')"
    using assms by (simp_all add: digit_char_code)
  then show ?thesis by auto
qed

lemma str_nat_shape:
  "str_nat n \<noteq> [] \<and> hd (str_nat n) \<noteq> CHR ''+'' \<and> hd (str_nat n) \<noteq> CHR ''-''"
proof (induction n rule: str_nat.induct)
  case (1 n)
  show ?case
  proof (cases "n < 10")
    case True
    then show ?thesis
      using digit_char_not_sign [of n] by (simp add: str_nat.simps [of n])
  next
    case False
    with "1.IH" show ?thesis
      by (simp add: str_nat.simps [of n])
  qed
qed

lemma badge_agrees: "zfill 2 (str_nat k) = format_02d k"
proof -
  from str_nat_shape [of k] obtain c r where s: "str_nat k = c # r"
    and c: "c \<noteq> CHR ''+''" "c \<noteq> CHR ''-''"
    by (cases "str_nat k") auto
  show ?thesis
    unfolding zfill_def format_02d_def s using c by simp
qed

lemma color_agrees_on_keys:
  "map_of (logic_color_map style) (framework_section content) = Some c \<Longrightarrow>
   exporter_color style content = c \<and> renderer_color style content = c"
  by (simp add: exporter_color_def renderer_color_def dict_get_def)

lemma jinja_inner_loop:
  "jinja_for [1..<n + 1] (\<lambda>loop_index i. g (i = loop_index)) = replicate n (g True)"
proof (rule nth_equalityI)
  show "length (jinja_for [1..<n + 1] (\<lambda>loop_index i. g (i = loop_index))) =
          length (replicate n (g True))"
    by (simp add: jinja_for_def del: upt_Suc)
next
  fix i assume "i < length (jinja_for [1..<n + 1] (\<lambda>loop_index i. g (i = loop_index)))"
  then have i: "i < n" by (simp add: jinja_for_def del: upt_Suc)
  then have "jinja_for [1..<n + 1] (\<lambda>loop_index i. g (i = loop_index)) ! i =
               g ([1..<n + 1] ! i = i + 1)"
    by (subst jinja_for_nth) (simp_all del: upt_Suc)
  also from i have "[1..<n + 1] ! i = i + 1" by (simp del: upt_Suc)
  finally show "jinja_for [1..<n + 1] (\<lambda>loop_index i. g (i = loop_index)) ! i =
                  replicate n (g True) ! i"
    using i by simp
qed

lemma render_nth:
  assumes "k < length slides"
  shows "render slides style ! k =
    (let color = renderer_color style (slides ! k) in
       \<lparr> background_image_url = renderer_background_url (background_image_base64 (slides ! k)),
         metro_line_color = color,
         badge_color = color,
         badge_text = format_02d (k + 1),
         progress_dots =
           jinja_for [1..<length slides + 1] (\<lambda>loop_index i.
             \<lparr> dot_class = ''progress-dot'' @ (if i = loop_index then '' active'' else []),
               dot_style = (if i = loop_index then ''border: 2px solid '' @ color @ '';''
                            else []) \<rparr>),
         h1_border_color = color,
         h1_text = title (slides ! k),
         p_text = body_text (slides ! k) \<rparr>)"
  unfolding render_def by (rule jinja_for_nth [OF assms])

lemma render_length: "length (render slides style) = length slides"
  by (simp add: render_def jinja_for_length)

lemma render_progress_dots:
  assumes "k < length slides"
  shows "progress_dots (render slides style ! k) =
           replicate (length slides)
             \<lparr> dot_class = ''progress-dot active'',
               dot_style = ''border: 2px solid '' @ renderer_color style (slides ! k) @ '';'' \<rparr>"
proof -
  let ?color = "renderer_color style (slides ! k)"
  have "progress_dots (render slides style ! k) =
      jinja_for [1..<length slides + 1] (\<lambda>loop_index i.
        \<lparr> dot_class = ''progress-dot'' @ (if i = loop_index then '' active'' else []),
          dot_style = (if i = loop_index then ''border: 2px solid '' @ ?color @ '';''
                       else []) \<rparr>)"
    apply (subst render_nth [OF assms])
    apply (simp only: Let_def slide_div.select_convs)
    done
  also have "\<dots> = replicate (length slides)
        \<lparr> dot_class = ''progress-dot'' @ (if True then '' active'' else []),
          dot_style = (if True then ''border: 2px solid '' @ ?color @ '';'' else []) \<rparr>"
    by (rule jinja_inner_loop [of "length slides"
          "\<lambda>b. \<lparr> dot_class = ''progress-dot'' @ (if b then '' active'' else []),
                 dot_style = (if b then ''border: 2px solid '' @ ?color @ '';'' else []) \<rparr>"])
  finally show ?thesis by simp
qed

lemma render_badge:
  assumes "k < length slides"
  shows "badge_text (render slides style ! k) = format_02d (k + 1)"
  apply (subst render_nth [OF assms])
  apply (simp only: Let_def slide_div.select_convs)
  done

lemma render_color:
  assumes "k < length slides"
  shows "metro_line_color (render slides style ! k) = renderer_color style (slides ! k)"
  apply (subst render_nth [OF assms])
  apply (simp only: Let_def slide_div.select_convs)
  done

lemma enumerate_replicate_positions:
  "map fst (filter (\<lambda>(i, d). P d) (enumerate m (replicate n v))) =
     (if P v then [m..<m + n] else [])"
proof (induction n arbitrary: m)
  case 0
  show ?case by simp
next
  case (Suc n)
  have "[m..<m + Suc n] = m # [Suc m..<Suc m + n]"
    by (simp add: upt_conv_Cons del: upt_Suc)
  then show ?case by (simp add: Suc.IH del: upt_Suc)
qed

lemma renderer_marks_every_dot:
  assumes "k < length slides"
  shows "renderer_active_positions (render slides style ! k) = [1..<length slides + 1]"
  unfolding renderer_active_positions_def render_progress_dots [OF assms]
  by (simp add: enumerate_replicate_positions del: upt_Suc)

lemma filter_eq_upt:
  "filter (\<lambda>i. i = m) [a..<b] = (if a \<le> m \<and> m < b then [m] else [])"
  by (induction b) auto

lemma filter_map_pairs:
  assumes "\<And>i. P (f i) \<longleftrightarrow> Q i"
  shows "filter (\<lambda>(i, d). P d) (map (\<lambda>i. (i, f i)) xs) = map (\<lambda>i. (i, f i)) (filter Q xs)"
  using assms by (induction xs) simp_all

lemma enumerate_map_upt:
  "enumerate a (map f [a..<b]) = map (\<lambda>i. (i, f i)) [a..<b]"
  by (rule nth_equalityI) (simp_all add: nth_enumerate_eq)

lemma exporter_marks_one_dot:
  assumes e: "export ap slides style = Inr pages" and k: "k < length slides"
  shows "length (progress_row (pages ! k)) = length slides \<and>
         exporter_active_positions (pages ! k) = [k + 1]"
proof -
  from e have ok: "color_ok style (slides ! k)"
    using k by (auto simp add: export_closed_form split: if_splits)
  then obtain accent where c: "hex_to_rgb (exporter_color style (slides ! k)) = Inr accent"
    by (cases "hex_to_rgb (exporter_color style (slides ! k))") (auto simp add: color_ok_def)
  from export_Inr_nth [OF e] k
  have page: "pages ! k = projr (export_slide ap style (length slides) k (slides ! k))"
    by simp
  let ?f = "\<lambda>i. if i = k + 1 then active_dot accent else inactive_dot"
  have row: "progress_row (pages ! k) = map ?f [1..<length slides + 1]"
    unfolding page by (rule page_progress_row [OF c])
  have "\<And>i. snd (snd (?f i)) \<noteq> None \<longleftrightarrow> i = k + 1"
    by (cases accent) (simp add: active_dot_def inactive_dot_def)
  then have "filter (\<lambda>(i, d). snd (snd d) \<noteq> None)
               (map (\<lambda>i. (i, ?f i)) [1..<length slides + 1])
          = map (\<lambda>i. (i, ?f i)) (filter (\<lambda>i. i = k + 1) [1..<length slides + 1])"
    by (rule filter_map_pairs)
  then have "exporter_active_positions (pages ! k) = [k + 1]"
    unfolding exporter_active_positions_def row enumerate_map_upt
    using k by (simp add: filter_eq_upt del: upt_Suc)
  moreover from row have "length (progress_row (pages ! k)) = length slides"
    by (simp del: upt_Suc)
  ultimately show ?thesis by simp
qed

text \<open>
  Where both outputs agree: on every page the badge of the exporter holds the text of
  the renderer's badge, and for a tag that is a key of the colour map the exporter's
  three accent shapes carry the conversion of the colour string the renderer emits.
\<close>

lemma no_accent_in_row:
  "concat (map shape_accent (map (\<lambda>i. if i = index then Dot a b c else Dot a' b' c') xs)) = []"
  by (induction xs) simp_all

lemma page_accent_colors:
  assumes c: "hex_to_rgb (exporter_color style content) = Inr rgb_color"
  shows "accent_colors (projr (export_slide ap style n idx content)) =
           [rgb_color, rgb_color, rgb_color]"
proof -
  from background_layer_cases [of ap content] show ?thesis
    unfolding page_of_slide [OF c] accent_colors_def
    by (auto simp add: no_accent_in_row simp del: upt_Suc map_map)
qed

lemma badge_same_in_both_outputs:
  assumes e: "export ap slides style = Inr pages" and k: "k < length slides"
  shows "badge_texts (pages ! k) = [badge_text (render slides style ! k)]"
proof -
  from e have ok: "color_ok style (slides ! k)"
    using k by (auto simp add: export_closed_form split: if_splits)
  from export_Inr_nth [OF e] k
  have "pages ! k = projr (export_slide ap style (length slides) k (slides ! k))"
    by simp
  then have "badge_texts (pages ! k) = [zfill 2 (str_nat (k + 1))]"
    using ok by (simp add: page_badge)
  then show ?thesis
    by (simp add: render_badge [OF k] badge_agrees)
qed

lemma color_same_in_both_outputs:
  assumes e: "export ap slides style = Inr pages" and k: "k < length slides"
      and tag: "framework_section (slides ! k) \<in> fst ` set (logic_color_map style)"
  shows "\<exists>c. hex_to_rgb (metro_line_color (render slides style ! k)) = Inr c \<and>
             accent_colors (pages ! k) = [c, c, c]"
proof -
  from tag obtain s where s: "map_of (logic_color_map style) (framework_section (slides ! k)) = Some s"
    by (cases "map_of (logic_color_map style) (framework_section (slides ! k))")
       (auto simp add: map_of_eq_None_iff)
  note same = color_agrees_on_keys [OF s]
  from e have ok: "color_ok style (slides ! k)"
    using k by (auto simp add: export_closed_form split: if_splits)
  then obtain c where c: "hex_to_rgb (exporter_color style (slides ! k)) = Inr c"
    by (cases "hex_to_rgb (exporter_color style (slides ! k))") (auto simp add: color_ok_def)
  from export_Inr_nth [OF e] k
  have "pages ! k = projr (export_slide ap style (length slides) k (slides ! k))"
    by simp
  then have "accent_colors (pages ! k) = [c, c, c]"
    by (simp add: page_accent_colors [OF c])
  moreover have "hex_to_rgb (metro_line_color (render slides style ! k)) = Inr c"
    using c same by (simp add: render_color [OF k])
  ultimately show ?thesis by blast
qed

section \<open>The three theme-dependent decisions on an example deck\<close>

text \<open>
  Claim C1, evaluated on a deck of three slides. The badge numbers agree
  (\<open>badge_same_in_both_outputs\<close>) and so do the colours of the tags the profile maps
  (\<open>color_same_in_both_outputs\<close>), but the active progress dot does not: the exporter
  marks the dot of the page's own position, the renderer marks every dot, because
  \<^verbatim>\<open>loop.index\<close> inside the inner loop of the template is the index of the inner loop.
\<close>

theorem active_dot_divergence:
  "map_sum id (map exporter_active_positions)
     (export example_add_picture example_deck METRO_STYLE) = Inr [[1], [2], [3]] \<and>
   map renderer_active_positions (render example_deck METRO_STYLE) =
     [[1, 2, 3], [1, 2, 3], [1, 2, 3]]"
  by code_simp

text \<open>
  Claim C2, evaluated on the same deck. Every row has three dots in both outputs; in
  the exporter's pages exactly the dot of the page's position is in the active state
  (in general: \<open>exporter_marks_one_dot\<close>), in the renderer's slide units all three
  dots carry the class \<^verbatim>\<open>progress-dot active\<close> (in general:
  \<open>render_progress_dots\<close>).
\<close>

theorem renderer_dot_row_evaluated:
  "map (\<lambda>u. map dot_class (progress_dots u)) (render example_deck METRO_STYLE) =
     [[''progress-dot active'', ''progress-dot active'', ''progress-dot active''],
      [''progress-dot active'', ''progress-dot active'', ''progress-dot active''],
      [''progress-dot active'', ''progress-dot active'', ''progress-dot active'']] \<and>
   map_sum id (map progress_row) (export example_add_picture example_deck METRO_STYLE) =
     Inr [[active_dot (227, 0, 44), inactive_dot, inactive_dot],
          [inactive_dot, active_dot (0, 112, 189), inactive_dot],
          [inactive_dot, inactive_dot, active_dot (0, 134, 89)]]"
  by code_simp

section \<open>Section tags outside the colour map\<close>

lemma fallback_gray_rgb: "hex_to_rgb ''#333333'' = Inr (51, 51, 51)"
  by code_simp

text \<open>
  For a tag that is not a key of the profile's colour map both lookups return their
  literal default, whatever the profile: the exporter \<^verbatim>\<open>#333333\<close>, the renderer
  \<^verbatim>\<open>#333\<close>. Neither reads the profile's own \<^verbatim>\<open>default\<close> entry.
\<close>

lemma unknown_section_literal:
  assumes "framework_section content \<notin> fst ` set (logic_color_map style)"
  shows "exporter_color style content = ''#333333'' \<and>
         hex_to_rgb (exporter_color style content) = Inr (51, 51, 51) \<and>
         renderer_color style content = ''#333''"
proof -
  from assms have "map_of (logic_color_map style) (framework_section content) = None"
    by (simp add: map_of_eq_None_iff)
  then show ?thesis
    using fallback_gray_rgb
    by (simp add: exporter_color_def renderer_color_def dict_get_def)
qed

text \<open>
  Claim C3, evaluated under the Modern Cafe profile on a slide whose tag
  (\<^verbatim>\<open>modern_cafe\<close>) is not a key of the colour map and a slide tagged
  \<^verbatim>\<open>default\<close>. The claim gives both the profile's \<^verbatim>\<open>default\<close> colour
  \<^verbatim>\<open>#5D4E37\<close>, that is (93, 78, 55). The exporter draws the three accent shapes of
  the first page in (51, 51, 51) and the renderer emits \<^verbatim>\<open>#333\<close> for the first unit;
  only the slide tagged \<^verbatim>\<open>default\<close> gets the profile's colour.
\<close>

theorem unknown_section_evaluated:
  "''modern_cafe'' \<notin> fst ` set (logic_color_map MODERN_CAFE_STYLE) \<and>
   map_of (logic_color_map MODERN_CAFE_STYLE) ''default'' = Some ''#5D4E37'' \<and>
   map_sum id (map accent_colors)
     (export example_add_picture example_tag_deck MODERN_CAFE_STYLE) =
     Inr [[(51, 51, 51), (51, 51, 51), (51, 51, 51)],
          [(93, 78, 55), (93, 78, 55), (93, 78, 55)]] \<and>
   map metro_line_color (render example_tag_deck MODERN_CAFE_STYLE) = [''#333'', ''#5D4E37'']"
  by code_simp

end
